theory Spec2Isabelle
  imports Main "HOL-Library.Word"
begin

unbundle bit_operations_syntax

section \<open>Host platform: byte order and object representation\<close>

text \<open>
  The packing template \<^verbatim>\<open>pack_template.h\<close> is compiled either with
  \<^verbatim>\<open>__LITTLE_ENDIAN__\<close> or with \<^verbatim>\<open>__BIG_ENDIAN__\<close> defined
  (\<^verbatim>\<open>sysdep.h\<close> derives one of them from \<^verbatim>\<open>__BYTE_ORDER\<close>).
  The host's byte order is a parameter of every definition below that depends on it.
\<close>

type_synonym byte = "8 word"

datatype endian = LittleEndian | BigEndian

text \<open>
  The object representation of a fixed-width integer: the bytes found at increasing
  addresses when the value is stored in the host's memory.  A store through
  \<^verbatim>\<open>*(uint16_t*)&buf[1] = v\<close> writes exactly these bytes to \<^verbatim>\<open>buf[1..2]\<close>,
  and \<^verbatim>\<open>((uint8_t*)&d)[i]\<close> reads the byte at index \<^verbatim>\<open>i\<close> of them.
\<close>

definition mem8 :: "8 word \<Rightarrow> byte list" where
  "mem8 w = [w]"

definition mem16 :: "endian \<Rightarrow> 16 word \<Rightarrow> byte list" where
  "mem16 e w =
     (case e of
        LittleEndian \<Rightarrow> [ucast w, ucast (drop_bit 8 w)]
      | BigEndian \<Rightarrow> [ucast (drop_bit 8 w), ucast w])"

definition mem32 :: "endian \<Rightarrow> 32 word \<Rightarrow> byte list" where
  "mem32 e w =
     (case e of
        LittleEndian \<Rightarrow>
          [ucast w, ucast (drop_bit 8 w), ucast (drop_bit 16 w), ucast (drop_bit 24 w)]
      | BigEndian \<Rightarrow>
          [ucast (drop_bit 24 w), ucast (drop_bit 16 w), ucast (drop_bit 8 w), ucast w])"

definition mem64 :: "endian \<Rightarrow> 64 word \<Rightarrow> byte list" where
  "mem64 e w =
     (case e of
        LittleEndian \<Rightarrow>
          [ucast w, ucast (drop_bit 8 w), ucast (drop_bit 16 w), ucast (drop_bit 24 w),
           ucast (drop_bit 32 w), ucast (drop_bit 40 w), ucast (drop_bit 48 w),
           ucast (drop_bit 56 w)]
      | BigEndian \<Rightarrow>
          [ucast (drop_bit 56 w), ucast (drop_bit 48 w), ucast (drop_bit 40 w),
           ucast (drop_bit 32 w), ucast (drop_bit 24 w), ucast (drop_bit 16 w),
           ucast (drop_bit 8 w), ucast w])"

subsection \<open>The \<^verbatim>\<open>TAKE8\<close> macros (pack_template.h, lines 19-29)\<close>

definition TAKE8_8 :: "endian \<Rightarrow> 8 word \<Rightarrow> byte" where
  "TAKE8_8 e d = (case e of LittleEndian \<Rightarrow> mem8 d ! 0 | BigEndian \<Rightarrow> mem8 d ! 0)"

definition TAKE8_16 :: "endian \<Rightarrow> 16 word \<Rightarrow> byte" where
  "TAKE8_16 e d = (case e of LittleEndian \<Rightarrow> mem16 e d ! 0 | BigEndian \<Rightarrow> mem16 e d ! 1)"

definition TAKE8_32 :: "endian \<Rightarrow> 32 word \<Rightarrow> byte" where
  "TAKE8_32 e d = (case e of LittleEndian \<Rightarrow> mem32 e d ! 0 | BigEndian \<Rightarrow> mem32 e d ! 3)"

definition TAKE8_64 :: "endian \<Rightarrow> 64 word \<Rightarrow> byte" where
  "TAKE8_64 e d = (case e of LittleEndian \<Rightarrow> mem64 e d ! 0 | BigEndian \<Rightarrow> mem64 e d ! 7)"

subsection \<open>Host to big-endian conversion (sysdep.h, lines 63-90)\<close>

text \<open>
  Modelled from the spec: \<^verbatim>\<open>ntohs\<close> and \<^verbatim>\<open>ntohl\<close> are not code of this
  repository; they come from the platform header \<^verbatim>\<open>arpa/inet.h\<close> (or
  \<^verbatim>\<open>winsock2.h\<close>).  \<^verbatim>\<open>sysdep.h\<close> uses them on little-endian hosts only,
  where the byte-order utility "must be a full byte-swap".  Their parameter has the
  type \<^verbatim>\<open>uint16_t\<close> (\<^verbatim>\<open>uint32_t\<close>), so a wider argument is converted to it first;
  the callers below write that conversion as \<open>ucast\<close>.
\<close>

definition ntohs :: "16 word \<Rightarrow> 16 word" where
  "ntohs x = push_bit 8 x OR drop_bit 8 x"

definition ntohl :: "32 word \<Rightarrow> 32 word" where
  "ntohl x =
     push_bit 24 x OR (push_bit 8 x AND 0x00ff0000) OR
     (drop_bit 8 x AND 0x0000ff00) OR drop_bit 24 x"

definition msgpack_be16 :: "endian \<Rightarrow> 16 word \<Rightarrow> 16 word" where
  "msgpack_be16 e x = (case e of LittleEndian \<Rightarrow> ntohs x | BigEndian \<Rightarrow> x)"

definition msgpack_be32 :: "endian \<Rightarrow> 32 word \<Rightarrow> 32 word" where
  "msgpack_be32 e x = (case e of LittleEndian \<Rightarrow> ntohl x | BigEndian \<Rightarrow> x)"

text \<open>
  \<^verbatim>\<open>_msgpack_be64\<close>: on a little-endian host the macro written out in
  \<^verbatim>\<open>sysdep.h\<close> (the fallback used when the platform offers no 64-bit swap of
  its own), on a big-endian host the identity.
\<close>

definition msgpack_be64 :: "endian \<Rightarrow> 64 word \<Rightarrow> 64 word" where
  "msgpack_be64 e x =
     (case e of
        LittleEndian \<Rightarrow>
          (push_bit 56 x AND 0xff00000000000000) OR
          (push_bit 40 x AND 0x00ff000000000000) OR
          (push_bit 24 x AND 0x0000ff0000000000) OR
          (push_bit 8 x AND 0x000000ff00000000) OR
          (drop_bit 8 x AND 0x00000000ff000000) OR
          (drop_bit 24 x AND 0x0000000000ff0000) OR
          (drop_bit 40 x AND 0x000000000000ff00) OR
          (drop_bit 56 x AND 0x00000000000000ff)
      | BigEndian \<Rightarrow> x)"

section \<open>The encoder (pack_template.h)\<close>

text \<open>
  The template is instantiated with a sink type \<^verbatim>\<open>msgpack_pack_user\<close> and a
  callback \<^verbatim>\<open>msgpack_pack_append_buffer(x, buf, len)\<close>; neither is defined in
  the template.  Both are parameters here: \<open>'u\<close> is the sink, and
  \<open>append_buffer x buf\<close> stands for \<^verbatim>\<open>msgpack_pack_append_buffer(x, buf, len)\<close> with
  \<open>buf\<close> the \<^verbatim>\<open>len\<close> bytes the call hands over.  Its result type \<open>'r\<close>
  is whatever the callback yields (an updated sink, a status code, a failure).

  Unsigned comparisons of the source are comparisons of \<open>uint\<close>, signed ones
  of \<open>sint\<close>: the C operands are converted to a common type that holds both
  values unchanged, so they compare as integers.
\<close>

subsection \<open>Integer (lines 48-272)\<close>

definition msgpack_pack_real_uint8 ::
  "('u \<Rightarrow> byte list \<Rightarrow> 'r) \<Rightarrow> endian \<Rightarrow> 'u \<Rightarrow> 8 word \<Rightarrow> 'r" where
  "msgpack_pack_real_uint8 append_buffer e x d =
     (if uint d < 2 ^ 7 then
        \<comment> \<open>fixnum\<close>
        append_buffer x [TAKE8_8 e d]
      else
        \<comment> \<open>unsigned 8\<close>
        append_buffer x [0xcc, TAKE8_8 e d])"

definition msgpack_pack_real_uint16 ::
  "('u \<Rightarrow> byte list \<Rightarrow> 'r) \<Rightarrow> endian \<Rightarrow> 'u \<Rightarrow> 16 word \<Rightarrow> 'r" where
  "msgpack_pack_real_uint16 append_buffer e x d =
     (if uint d < 2 ^ 7 then
        \<comment> \<open>fixnum\<close>
        append_buffer x [TAKE8_16 e d]
      else if uint d < 2 ^ 8 then
        \<comment> \<open>unsigned 8\<close>
        append_buffer x [0xcc, TAKE8_16 e d]
      else
        \<comment> \<open>unsigned 16\<close>
        append_buffer x (0xcd # mem16 e (msgpack_be16 e d)))"

definition msgpack_pack_real_uint32 ::
  "('u \<Rightarrow> byte list \<Rightarrow> 'r) \<Rightarrow> endian \<Rightarrow> 'u \<Rightarrow> 32 word \<Rightarrow> 'r" where
  "msgpack_pack_real_uint32 append_buffer e x d =
     (if uint d < 2 ^ 8 then
        (if uint d < 2 ^ 7 then
           \<comment> \<open>fixnum\<close>
           append_buffer x [TAKE8_32 e d]
         else
           \<comment> \<open>unsigned 8\<close>
           append_buffer x [0xcc, TAKE8_32 e d])
      else
        (if uint d < 2 ^ 16 then
           \<comment> \<open>unsigned 16\<close>
           append_buffer x (0xcd # mem16 e (msgpack_be16 e (ucast d)))
         else
           \<comment> \<open>unsigned 32\<close>
           append_buffer x (0xce # mem32 e (msgpack_be32 e d))))"

definition msgpack_pack_real_uint64 ::
  "('u \<Rightarrow> byte list \<Rightarrow> 'r) \<Rightarrow> endian \<Rightarrow> 'u \<Rightarrow> 64 word \<Rightarrow> 'r" where
  "msgpack_pack_real_uint64 append_buffer e x d =
     (if uint d < 2 ^ 8 then
        (if uint d < 2 ^ 7 then
           \<comment> \<open>fixnum\<close>
           append_buffer x [TAKE8_64 e d]
         else
           \<comment> \<open>unsigned 8\<close>
           append_buffer x [0xcc, TAKE8_64 e d])
      else
        (if uint d < 2 ^ 16 then
           \<comment> \<open>unsigned 16\<close>
           append_buffer x (0xcd # mem16 e (msgpack_be16 e (ucast d)))
         else if uint d < 2 ^ 32 then
           \<comment> \<open>unsigned 32\<close>
           append_buffer x (0xce # mem32 e (msgpack_be32 e (ucast d)))
         else
           \<comment> \<open>unsigned 64\<close>
           append_buffer x (0xcf # mem64 e (msgpack_be64 e d))))"

definition msgpack_pack_real_int8 ::
  "('u \<Rightarrow> byte list \<Rightarrow> 'r) \<Rightarrow> endian \<Rightarrow> 'u \<Rightarrow> 8 word \<Rightarrow> 'r" where
  "msgpack_pack_real_int8 append_buffer e x d =
     (if sint d < - (2 ^ 5) then
        \<comment> \<open>signed 8\<close>
        append_buffer x [0xd0, TAKE8_8 e d]
      else
        \<comment> \<open>fixnum\<close>
        append_buffer x [TAKE8_8 e d])"

definition msgpack_pack_real_int16 ::
  "('u \<Rightarrow> byte list \<Rightarrow> 'r) \<Rightarrow> endian \<Rightarrow> 'u \<Rightarrow> 16 word \<Rightarrow> 'r" where
  "msgpack_pack_real_int16 append_buffer e x d =
     (if sint d < - (2 ^ 5) then
        (if sint d < - (2 ^ 7) then
           \<comment> \<open>signed 16\<close>
           append_buffer x (0xd1 # mem16 e (msgpack_be16 e d))
         else
           \<comment> \<open>signed 8\<close>
           append_buffer x [0xd0, TAKE8_16 e d])
      else if sint d < 2 ^ 7 then
        \<comment> \<open>fixnum\<close>
        append_buffer x [TAKE8_16 e d]
      else
        (if sint d < 2 ^ 8 then
           \<comment> \<open>unsigned 8\<close>
           append_buffer x [0xcc, TAKE8_16 e d]
         else
           \<comment> \<open>unsigned 16\<close>
           append_buffer x (0xcd # mem16 e (msgpack_be16 e d))))"

definition msgpack_pack_real_int32 ::
  "('u \<Rightarrow> byte list \<Rightarrow> 'r) \<Rightarrow> endian \<Rightarrow> 'u \<Rightarrow> 32 word \<Rightarrow> 'r" where
  "msgpack_pack_real_int32 append_buffer e x d =
     (if sint d < - (2 ^ 5) then
        (if sint d < - (2 ^ 15) then
           \<comment> \<open>signed 32\<close>
           append_buffer x (0xd2 # mem32 e (msgpack_be32 e d))
         else if sint d < - (2 ^ 7) then
           \<comment> \<open>signed 16\<close>
           append_buffer x (0xd1 # mem16 e (msgpack_be16 e (ucast d)))
         else
           \<comment> \<open>signed 8\<close>
           append_buffer x [0xd0, TAKE8_32 e d])
      else if sint d < 2 ^ 7 then
        \<comment> \<open>fixnum\<close>
        append_buffer x [TAKE8_32 e d]
      else
        (if sint d < 2 ^ 8 then
           \<comment> \<open>unsigned 8\<close>
           append_buffer x [0xcc, TAKE8_32 e d]
         else if sint d < 2 ^ 16 then
           \<comment> \<open>unsigned 16\<close>
           append_buffer x (0xcd # mem16 e (msgpack_be16 e (ucast d)))
         else
           \<comment> \<open>unsigned 32\<close>
           append_buffer x (0xce # mem32 e (msgpack_be32 e d))))"

definition msgpack_pack_real_int64 ::
  "('u \<Rightarrow> byte list \<Rightarrow> 'r) \<Rightarrow> endian \<Rightarrow> 'u \<Rightarrow> 64 word \<Rightarrow> 'r" where
  "msgpack_pack_real_int64 append_buffer e x d =
     (if sint d < - (2 ^ 5) then
        (if sint d < - (2 ^ 15) then
           (if sint d < - (2 ^ 31) then
              \<comment> \<open>signed 64\<close>
              append_buffer x (0xd3 # mem64 e (msgpack_be64 e d))
            else
              \<comment> \<open>signed 32\<close>
              append_buffer x (0xd2 # mem32 e (msgpack_be32 e (ucast d))))
         else
           (if sint d < - (2 ^ 7) then
              \<comment> \<open>signed 16\<close>
              append_buffer x (0xd1 # mem16 e (msgpack_be16 e (ucast d)))
            else
              \<comment> \<open>signed 8\<close>
              append_buffer x [0xd0, TAKE8_64 e d]))
      else if sint d < 2 ^ 7 then
        \<comment> \<open>fixnum\<close>
        append_buffer x [TAKE8_64 e d]
      else
        (if sint d < 2 ^ 16 then
           (if sint d < 2 ^ 8 then
              \<comment> \<open>unsigned 8\<close>
              append_buffer x [0xcc, TAKE8_64 e d]
            else
              \<comment> \<open>unsigned 16\<close>
              append_buffer x (0xcd # mem16 e (msgpack_be16 e (ucast d))))
         else
           (if sint d < 2 ^ 32 then
              \<comment> \<open>unsigned 32\<close>
              append_buffer x (0xce # mem32 e (msgpack_be32 e (ucast d)))
            else
              \<comment> \<open>unsigned 64\<close>
              append_buffer x (0xcf # mem64 e (msgpack_be64 e d)))))"

subsection \<open>Fixed-form integers (\<^verbatim>\<open>msgpack_pack_inline_func_fastint\<close>, lines 275-332)\<close>

definition msgpack_pack_fix_uint8 ::
  "('u \<Rightarrow> byte list \<Rightarrow> 'r) \<Rightarrow> endian \<Rightarrow> 'u \<Rightarrow> 8 word \<Rightarrow> 'r" where
  "msgpack_pack_fix_uint8 append_buffer e x d = append_buffer x [0xcc, TAKE8_8 e d]"

definition msgpack_pack_fix_uint16 ::
  "('u \<Rightarrow> byte list \<Rightarrow> 'r) \<Rightarrow> endian \<Rightarrow> 'u \<Rightarrow> 16 word \<Rightarrow> 'r" where
  "msgpack_pack_fix_uint16 append_buffer e x d = append_buffer x (0xcd # mem16 e (msgpack_be16 e d))"

definition msgpack_pack_fix_uint32 ::
  "('u \<Rightarrow> byte list \<Rightarrow> 'r) \<Rightarrow> endian \<Rightarrow> 'u \<Rightarrow> 32 word \<Rightarrow> 'r" where
  "msgpack_pack_fix_uint32 append_buffer e x d = append_buffer x (0xce # mem32 e (msgpack_be32 e d))"

definition msgpack_pack_fix_uint64 ::
  "('u \<Rightarrow> byte list \<Rightarrow> 'r) \<Rightarrow> endian \<Rightarrow> 'u \<Rightarrow> 64 word \<Rightarrow> 'r" where
  "msgpack_pack_fix_uint64 append_buffer e x d = append_buffer x (0xcf # mem64 e (msgpack_be64 e d))"

definition msgpack_pack_fix_int8 ::
  "('u \<Rightarrow> byte list \<Rightarrow> 'r) \<Rightarrow> endian \<Rightarrow> 'u \<Rightarrow> 8 word \<Rightarrow> 'r" where
  "msgpack_pack_fix_int8 append_buffer e x d = append_buffer x [0xd0, TAKE8_8 e d]"

definition msgpack_pack_fix_int16 ::
  "('u \<Rightarrow> byte list \<Rightarrow> 'r) \<Rightarrow> endian \<Rightarrow> 'u \<Rightarrow> 16 word \<Rightarrow> 'r" where
  "msgpack_pack_fix_int16 append_buffer e x d = append_buffer x (0xd1 # mem16 e (msgpack_be16 e d))"

definition msgpack_pack_fix_int32 ::
  "('u \<Rightarrow> byte list \<Rightarrow> 'r) \<Rightarrow> endian \<Rightarrow> 'u \<Rightarrow> 32 word \<Rightarrow> 'r" where
  "msgpack_pack_fix_int32 append_buffer e x d = append_buffer x (0xd2 # mem32 e (msgpack_be32 e d))"

definition msgpack_pack_fix_int64 ::
  "('u \<Rightarrow> byte list \<Rightarrow> 'r) \<Rightarrow> endian \<Rightarrow> 'u \<Rightarrow> 64 word \<Rightarrow> 'r" where
  "msgpack_pack_fix_int64 append_buffer e x d = append_buffer x (0xd3 # mem64 e (msgpack_be64 e d))"

subsection \<open>The fixed-width entry points (lines 335-373)\<close>

definition msgpack_pack_uint8 ::
  "('u \<Rightarrow> byte list \<Rightarrow> 'r) \<Rightarrow> endian \<Rightarrow> 'u \<Rightarrow> 8 word \<Rightarrow> 'r" where
  "msgpack_pack_uint8 append_buffer e x d = msgpack_pack_real_uint8 append_buffer e x d"

definition msgpack_pack_uint16 ::
  "('u \<Rightarrow> byte list \<Rightarrow> 'r) \<Rightarrow> endian \<Rightarrow> 'u \<Rightarrow> 16 word \<Rightarrow> 'r" where
  "msgpack_pack_uint16 append_buffer e x d = msgpack_pack_real_uint16 append_buffer e x d"

definition msgpack_pack_uint32 ::
  "('u \<Rightarrow> byte list \<Rightarrow> 'r) \<Rightarrow> endian \<Rightarrow> 'u \<Rightarrow> 32 word \<Rightarrow> 'r" where
  "msgpack_pack_uint32 append_buffer e x d = msgpack_pack_real_uint32 append_buffer e x d"

definition msgpack_pack_uint64 ::
  "('u \<Rightarrow> byte list \<Rightarrow> 'r) \<Rightarrow> endian \<Rightarrow> 'u \<Rightarrow> 64 word \<Rightarrow> 'r" where
  "msgpack_pack_uint64 append_buffer e x d = msgpack_pack_real_uint64 append_buffer e x d"

definition msgpack_pack_int8 ::
  "('u \<Rightarrow> byte list \<Rightarrow> 'r) \<Rightarrow> endian \<Rightarrow> 'u \<Rightarrow> 8 word \<Rightarrow> 'r" where
  "msgpack_pack_int8 append_buffer e x d = msgpack_pack_real_int8 append_buffer e x d"

definition msgpack_pack_int16 ::
  "('u \<Rightarrow> byte list \<Rightarrow> 'r) \<Rightarrow> endian \<Rightarrow> 'u \<Rightarrow> 16 word \<Rightarrow> 'r" where
  "msgpack_pack_int16 append_buffer e x d = msgpack_pack_real_int16 append_buffer e x d"

definition msgpack_pack_int32 ::
  "('u \<Rightarrow> byte list \<Rightarrow> 'r) \<Rightarrow> endian \<Rightarrow> 'u \<Rightarrow> 32 word \<Rightarrow> 'r" where
  "msgpack_pack_int32 append_buffer e x d = msgpack_pack_real_int32 append_buffer e x d"

definition msgpack_pack_int64 ::
  "('u \<Rightarrow> byte list \<Rightarrow> 'r) \<Rightarrow> endian \<Rightarrow> 'u \<Rightarrow> 64 word \<Rightarrow> 'r" where
  "msgpack_pack_int64 append_buffer e x d = msgpack_pack_real_int64 append_buffer e x d"

subsection \<open>Float (lines 555-571)\<close>

text \<open>
  The source copies the \<^verbatim>\<open>float\<close> (\<^verbatim>\<open>double\<close>) into a union and reads it
  back as \<^verbatim>\<open>f.num\<close>, an integer of the same size.  The argument \<open>num\<close> here is
  that integer: the bit pattern of the value to encode.
\<close>

definition msgpack_pack_float ::
  "('u \<Rightarrow> byte list \<Rightarrow> 'r) \<Rightarrow> endian \<Rightarrow> 'u \<Rightarrow> 32 word \<Rightarrow> 'r" where
  "msgpack_pack_float append_buffer e x num = append_buffer x (0xca # mem32 e (msgpack_be32 e num))"

definition msgpack_pack_double ::
  "('u \<Rightarrow> byte list \<Rightarrow> 'r) \<Rightarrow> endian \<Rightarrow> 'u \<Rightarrow> 64 word \<Rightarrow> 'r" where
  "msgpack_pack_double append_buffer e x num = append_buffer x (0xcb # mem64 e (msgpack_be64 e num))"

subsection \<open>Nil and Boolean (lines 578-599)\<close>

definition msgpack_pack_nil :: "('u \<Rightarrow> byte list \<Rightarrow> 'r) \<Rightarrow> 'u \<Rightarrow> 'r" where
  "msgpack_pack_nil append_buffer x = append_buffer x [0xc0]"

definition msgpack_pack_true :: "('u \<Rightarrow> byte list \<Rightarrow> 'r) \<Rightarrow> 'u \<Rightarrow> 'r" where
  "msgpack_pack_true append_buffer x = append_buffer x [0xc3]"

definition msgpack_pack_false :: "('u \<Rightarrow> byte list \<Rightarrow> 'r) \<Rightarrow> 'u \<Rightarrow> 'r" where
  "msgpack_pack_false append_buffer x = append_buffer x [0xc2]"

subsection \<open>Array, Map and Raw (lines 606-667)\<close>

text \<open>
  The counts of arrays and maps are \<^verbatim>\<open>unsigned int\<close>, 32 bits wide on the
  platforms the package is built for.  The length of a raw is a \<^verbatim>\<open>size_t\<close>,
  taken here at its 64-bit width; a 32-bit \<^verbatim>\<open>size_t\<close> is the case
  \<open>uint l < 2 ^ 32\<close>.  The short forms store \<^verbatim>\<open>0x90 | n\<close> in an
  \<^verbatim>\<open>unsigned char\<close>, a conversion that keeps the low eight bits; the wide forms
  pass the count to \<^verbatim>\<open>_msgpack_be16\<close> or \<^verbatim>\<open>_msgpack_be32\<close>, whose operand
  is converted to 16 or 32 bits in the same way.
\<close>

definition msgpack_pack_array ::
  "('u \<Rightarrow> byte list \<Rightarrow> 'r) \<Rightarrow> endian \<Rightarrow> 'u \<Rightarrow> 32 word \<Rightarrow> 'r" where
  "msgpack_pack_array append_buffer e x n =
     (if uint n < 16 then
        append_buffer x [ucast (0x90 OR n)]
      else if uint n < 65536 then
        append_buffer x (0xdc # mem16 e (msgpack_be16 e (ucast n)))
      else
        append_buffer x (0xdd # mem32 e (msgpack_be32 e n)))"

definition msgpack_pack_map ::
  "('u \<Rightarrow> byte list \<Rightarrow> 'r) \<Rightarrow> endian \<Rightarrow> 'u \<Rightarrow> 32 word \<Rightarrow> 'r" where
  "msgpack_pack_map append_buffer e x n =
     (if uint n < 16 then
        append_buffer x [TAKE8_8 e (ucast (0x80 OR n))]
      else if uint n < 65536 then
        append_buffer x (0xde # mem16 e (msgpack_be16 e (ucast n)))
      else
        append_buffer x (0xdf # mem32 e (msgpack_be32 e n)))"

definition msgpack_pack_raw ::
  "('u \<Rightarrow> byte list \<Rightarrow> 'r) \<Rightarrow> endian \<Rightarrow> 'u \<Rightarrow> 64 word \<Rightarrow> 'r" where
  "msgpack_pack_raw append_buffer e x l =
     (if uint l < 32 then
        append_buffer x [TAKE8_8 e (ucast (0xa0 OR l))]
      else if uint l < 65536 then
        append_buffer x (0xda # mem16 e (msgpack_be16 e (ucast l)))
      else
        append_buffer x (0xdb # mem32 e (msgpack_be32 e (ucast l))))"

text \<open>
  \<^verbatim>\<open>msgpack_pack_raw_body(x, b, l)\<close>: \<open>b\<close> is the \<^verbatim>\<open>l\<close> bytes found at the
  pointer.
\<close>

definition msgpack_pack_raw_body :: "('u \<Rightarrow> byte list \<Rightarrow> 'r) \<Rightarrow> 'u \<Rightarrow> byte list \<Rightarrow> 'r" where
  "msgpack_pack_raw_body append_buffer x b = append_buffer x b"

section \<open>The wire format, as the specification words it\<close>

text \<open>
  The definitions of this section are not translations of code: they restate the
  specification's tables, so that the encoder above can be compared with them.

  \<open>be_payload n v\<close> is the payload of \<open>n\<close> bytes holding \<open>v\<close> in big-endian
  order, most significant byte first; a negative \<open>v\<close> is held in two's
  complement (\<open>div\<close> rounds down, and \<open>word_of_int\<close> keeps the low eight bits).
\<close>

primrec be_payload :: "nat \<Rightarrow> int \<Rightarrow> byte list" where
  "be_payload 0 v = []"
| "be_payload (Suc n) v = word_of_int (v div 256 ^ n) # be_payload n v"

text \<open>
  The unsigned table of the specification: the first row whose range holds \<open>v\<close>.
\<close>

definition narrowest_unsigned :: "int \<Rightarrow> byte list" where
  "narrowest_unsigned v =
     (if v < 2 ^ 7 then [word_of_int v]
      else if v < 2 ^ 8 then 0xcc # be_payload 1 v
      else if v < 2 ^ 16 then 0xcd # be_payload 2 v
      else if v < 2 ^ 32 then 0xce # be_payload 4 v
      else 0xcf # be_payload 8 v)"

text \<open>
  The forms open to a signed value, by increasing size and each with the range it
  can represent: fixnum (\<open>-32 .. 127\<close>), then at each width of 8, 16, 32 and 64
  bits the unsigned form (\<open>0 .. 2^w - 1\<close>) before the signed one
  (\<open>-2^(w-1) .. 2^(w-1) - 1\<close>).  The first form whose range holds \<open>v\<close> is the
  narrowest one, and by the order it is an unsigned form whenever \<open>v\<close> is not
  negative.
\<close>

definition narrowest_signed :: "int \<Rightarrow> byte list" where
  "narrowest_signed v =
     (if - (2 ^ 5) \<le> v \<and> v < 2 ^ 7 then [word_of_int v]
      else if 0 \<le> v \<and> v < 2 ^ 8 then 0xcc # be_payload 1 v
      else if - (2 ^ 7) \<le> v \<and> v < 2 ^ 7 then 0xd0 # be_payload 1 v
      else if 0 \<le> v \<and> v < 2 ^ 16 then 0xcd # be_payload 2 v
      else if - (2 ^ 15) \<le> v \<and> v < 2 ^ 15 then 0xd1 # be_payload 2 v
      else if 0 \<le> v \<and> v < 2 ^ 32 then 0xce # be_payload 4 v
      else if - (2 ^ 31) \<le> v \<and> v < 2 ^ 31 then 0xd2 # be_payload 4 v
      else if 0 \<le> v then 0xcf # be_payload 8 v
      else 0xd3 # be_payload 8 v)"

text \<open>Shapes of an encoding, and classes of its leading byte.\<close>

definition positive_fixnum :: "byte list \<Rightarrow> bool" where
  "positive_fixnum buf \<longleftrightarrow> length buf = 1 \<and> hd buf \<le> 0x7f"

definition unsigned_form :: "byte list \<Rightarrow> bool" where
  "unsigned_form buf \<longleftrightarrow>
     (length buf = 2 \<and> hd buf = 0xcc) \<or> (length buf = 3 \<and> hd buf = 0xcd) \<or>
     (length buf = 5 \<and> hd buf = 0xce) \<or> (length buf = 9 \<and> hd buf = 0xcf)"

definition signed_tag :: "byte \<Rightarrow> bool" where
  "signed_tag b \<longleftrightarrow> 0xd0 \<le> b \<and> b \<le> 0xd3"

text \<open>The tag values the classic format leaves unused: 0xc1, 0xc4-0xc9, 0xd4-0xd9.\<close>

definition reserved_tag :: "byte \<Rightarrow> bool" where
  "reserved_tag b \<longleftrightarrow> b = 0xc1 \<or> (0xc4 \<le> b \<and> b \<le> 0xc9) \<or> (0xd4 \<le> b \<and> b \<le> 0xd9)"

text \<open>
  The ranges of leading bytes as the invariant of reserved tags lists them:
  0x00-0xbf, 0xc0, 0xc2/0xc3, 0xca-0xcf, 0xd0-0xd3, 0xda-0xdf.
\<close>

definition listed_tag :: "byte \<Rightarrow> bool" where
  "listed_tag b \<longleftrightarrow>
     b \<le> 0xbf \<or> b = 0xc0 \<or> b = 0xc2 \<or> b = 0xc3 \<or> (0xca \<le> b \<and> b \<le> 0xcf) \<or>
     (0xd0 \<le> b \<and> b \<le> 0xd3) \<or> (0xda \<le> b \<and> b \<le> 0xdf)"

text \<open>
  The tag layout of the wire format (section 6 of the specification): the listed
  ranges and the negative fixnums 0xe0-0xff.
\<close>

definition wire_tag :: "byte \<Rightarrow> bool" where
  "wire_tag b \<longleftrightarrow> listed_tag b \<or> 0xe0 \<le> b"

text \<open>An encoding that starts with a byte of the wire format's layout.\<close>

definition tagged :: "byte list \<Rightarrow> bool" where
  "tagged buf \<longleftrightarrow> buf \<noteq> [] \<and> \<not> reserved_tag (hd buf) \<and> wire_tag (hd buf)"

section \<open>Bytes of a word\<close>

lemma byte_of_uint:
  "(ucast (drop_bit n (w :: 'a::len word)) :: byte) = word_of_int (uint w div 2 ^ n)"
  by (rule bit_word_eqI) (auto simp: bit_simps simp flip: drop_bit_eq_div)

lemma byte_of_sint:
  "n + 8 \<le> LENGTH('a) \<Longrightarrow>
   (word_of_int (sint (w :: 'a::len word) div 2 ^ n) :: byte) = word_of_int (uint w div 2 ^ n)"
proof (rule bit_word_eqI)
  fix i :: nat
  assume len: "n + 8 \<le> LENGTH('a)" and i: "i < LENGTH(8)"
  then have m: "min (LENGTH('a) - Suc 0) (n + i) = n + i" by simp
  from i len
  show "bit (word_of_int (sint w div 2 ^ n) :: byte) i =
        bit (word_of_int (uint w div 2 ^ n) :: byte) i"
    by (simp add: bit_simps m flip: drop_bit_eq_div)
qed

lemma byte_of_ucast:
  "n + 8 \<le> LENGTH('b) \<Longrightarrow>
   (word_of_int (uint (ucast (w :: 'a::len word) :: 'b::len word) div 2 ^ n) :: byte) =
   word_of_int (uint w div 2 ^ n)"
  by (rule bit_word_eqI) (auto simp: bit_simps simp flip: drop_bit_eq_div)

lemma byte0_uint: "(word_of_int (uint (w :: 'a::len word)) :: byte) = ucast w"
  using byte_of_uint [of 0 w] by simp

lemma scast_byte: "8 \<le> LENGTH('a) \<Longrightarrow> (scast (w :: 'a::len word) :: byte) = ucast w"
  using byte_of_sint [of 0 w] byte_of_uint [of 0 w] by simp

lemma byte0_ucast:
  "8 \<le> LENGTH('b) \<Longrightarrow> (ucast (ucast (w :: 'a::len word) :: 'b::len word) :: byte) = ucast w"
  using byte_of_ucast [of 0 w, where 'b='b] byte_of_uint [of 0 w]
    byte_of_uint [of 0 "ucast w :: 'b word"]
  by simp

lemma byten_ucast:
  "n + 8 \<le> LENGTH('b) \<Longrightarrow>
   (ucast (drop_bit n (ucast (w :: 'a::len word) :: 'b::len word)) :: byte) =
   ucast (drop_bit n w)"
  using byte_of_ucast [of n w, where 'b='b] by (simp add: byte_of_uint)

subsection \<open>Big-endian payloads in terms of the bytes of a word\<close>

lemma be_payload_1: "be_payload 1 v = [word_of_int v]"
  by simp

lemma be_payload_2: "be_payload 2 v = [word_of_int (v div 2 ^ 8), word_of_int v]"
  by (simp add: eval_nat_numeral)

lemma be_payload_4:
  "be_payload 4 v =
     [word_of_int (v div 2 ^ 24), word_of_int (v div 2 ^ 16), word_of_int (v div 2 ^ 8),
      word_of_int v]"
  by (simp add: eval_nat_numeral)

lemma be_payload_8:
  "be_payload 8 v =
     [word_of_int (v div 2 ^ 56), word_of_int (v div 2 ^ 48), word_of_int (v div 2 ^ 40),
      word_of_int (v div 2 ^ 32), word_of_int (v div 2 ^ 24), word_of_int (v div 2 ^ 16),
      word_of_int (v div 2 ^ 8), word_of_int v]"
  by (simp add: eval_nat_numeral)

lemma be_payload_uint:
  "be_payload 1 (uint (w :: 'a::len word)) = [ucast w]"
  "be_payload 2 (uint w) = [ucast (drop_bit 8 w), ucast w]"
  "be_payload 4 (uint w) =
     [ucast (drop_bit 24 w), ucast (drop_bit 16 w), ucast (drop_bit 8 w), ucast w]"
  "be_payload 8 (uint w) =
     [ucast (drop_bit 56 w), ucast (drop_bit 48 w), ucast (drop_bit 40 w),
      ucast (drop_bit 32 w), ucast (drop_bit 24 w), ucast (drop_bit 16 w),
      ucast (drop_bit 8 w), ucast w]"
  unfolding be_payload_1 be_payload_2 be_payload_4 be_payload_8
    byte_of_uint [symmetric] byte0_uint
  by (rule refl)+

lemma be_payload_sint_1:
  "8 \<le> LENGTH('a) \<Longrightarrow> be_payload 1 (sint (w :: 'a::len word)) = [ucast w]"
  unfolding be_payload_1 by (simp add: scast_byte)

lemma be_payload_sint_2:
  "16 \<le> LENGTH('a) \<Longrightarrow>
   be_payload 2 (sint (w :: 'a::len word)) = [ucast (drop_bit 8 w), ucast w]"
  unfolding be_payload_2
  by (simp add: scast_byte byte_of_sint byte_of_uint del: power_numeral)

lemma be_payload_sint_4:
  "32 \<le> LENGTH('a) \<Longrightarrow>
   be_payload 4 (sint (w :: 'a::len word)) =
     [ucast (drop_bit 24 w), ucast (drop_bit 16 w), ucast (drop_bit 8 w), ucast w]"
  unfolding be_payload_4
  by (simp add: scast_byte byte_of_sint byte_of_uint del: power_numeral)

lemma be_payload_sint_8:
  "64 \<le> LENGTH('a) \<Longrightarrow>
   be_payload 8 (sint (w :: 'a::len word)) =
     [ucast (drop_bit 56 w), ucast (drop_bit 48 w), ucast (drop_bit 40 w),
      ucast (drop_bit 32 w), ucast (drop_bit 24 w), ucast (drop_bit 16 w),
      ucast (drop_bit 8 w), ucast w]"
  unfolding be_payload_8
  by (simp add: scast_byte byte_of_sint byte_of_uint del: power_numeral)

lemmas be_payload_sint =
  be_payload_sint_1 be_payload_sint_2 be_payload_sint_4 be_payload_sint_8

section \<open>The conversions yield big-endian memory on either host\<close>

lemma ntohs_bytes:
  "(ucast (ntohs w) :: byte) = ucast (drop_bit 8 w)"
  "(ucast (drop_bit 8 (ntohs w)) :: byte) = ucast w"
  unfolding ntohs_def
  by (rule bit_word_eqI, auto simp: bit_simps)+

lemma mask_consts32:
  "(0x00ff0000 :: 32 word) = push_bit 16 (mask 8)"
  "(0x0000ff00 :: 32 word) = push_bit 8 (mask 8)"
  by (simp_all add: mask_eq_exp_minus_1)

lemma ntohl_bytes:
  "(ucast (ntohl w) :: byte) = ucast (drop_bit 24 w)"
  "(ucast (drop_bit 8 (ntohl w)) :: byte) = ucast (drop_bit 16 w)"
  "(ucast (drop_bit 16 (ntohl w)) :: byte) = ucast (drop_bit 8 w)"
  "(ucast (drop_bit 24 (ntohl w)) :: byte) = ucast w"
  unfolding ntohl_def mask_consts32
  by (rule bit_word_eqI, auto simp: bit_simps)+

lemma mask_consts64:
  "(0xff00000000000000 :: 64 word) = push_bit 56 (mask 8)"
  "(0x00ff000000000000 :: 64 word) = push_bit 48 (mask 8)"
  "(0x0000ff0000000000 :: 64 word) = push_bit 40 (mask 8)"
  "(0x000000ff00000000 :: 64 word) = push_bit 32 (mask 8)"
  "(0x00000000ff000000 :: 64 word) = push_bit 24 (mask 8)"
  "(0x0000000000ff0000 :: 64 word) = push_bit 16 (mask 8)"
  "(0x000000000000ff00 :: 64 word) = push_bit 8 (mask 8)"
  "(0x00000000000000ff :: 64 word) = mask 8"
  by (simp_all add: mask_eq_exp_minus_1)

lemma be64_bytes:
  "(ucast (msgpack_be64 LittleEndian w) :: byte) = ucast (drop_bit 56 w)"
  "(ucast (drop_bit 8 (msgpack_be64 LittleEndian w)) :: byte) = ucast (drop_bit 48 w)"
  "(ucast (drop_bit 16 (msgpack_be64 LittleEndian w)) :: byte) = ucast (drop_bit 40 w)"
  "(ucast (drop_bit 24 (msgpack_be64 LittleEndian w)) :: byte) = ucast (drop_bit 32 w)"
  "(ucast (drop_bit 32 (msgpack_be64 LittleEndian w)) :: byte) = ucast (drop_bit 24 w)"
  "(ucast (drop_bit 40 (msgpack_be64 LittleEndian w)) :: byte) = ucast (drop_bit 16 w)"
  "(ucast (drop_bit 48 (msgpack_be64 LittleEndian w)) :: byte) = ucast (drop_bit 8 w)"
  "(ucast (drop_bit 56 (msgpack_be64 LittleEndian w)) :: byte) = ucast w"
  unfolding msgpack_be64_def endian.case mask_consts64
  by (rule bit_word_eqI, auto simp: bit_simps)+

lemma mem16_be16: "mem16 e (msgpack_be16 e w) = [ucast (drop_bit 8 w), ucast w]"
  by (cases e) (simp_all add: mem16_def msgpack_be16_def ntohs_bytes)

lemma mem32_be32:
  "mem32 e (msgpack_be32 e w) =
     [ucast (drop_bit 24 w), ucast (drop_bit 16 w), ucast (drop_bit 8 w), ucast w]"
  by (cases e) (simp_all add: mem32_def msgpack_be32_def ntohl_bytes)

lemma mem64_be64:
  "mem64 e (msgpack_be64 e w) =
     [ucast (drop_bit 56 w), ucast (drop_bit 48 w), ucast (drop_bit 40 w),
      ucast (drop_bit 32 w), ucast (drop_bit 24 w), ucast (drop_bit 16 w),
      ucast (drop_bit 8 w), ucast w]"
proof (cases e)
  case LittleEndian
  show ?thesis unfolding LittleEndian by (simp add: mem64_def be64_bytes)
next
  case BigEndian
  show ?thesis unfolding BigEndian by (simp add: mem64_def msgpack_be64_def)
qed

lemma TAKE8_simps:
  "TAKE8_8 e b = b"
  "TAKE8_16 e h = ucast h"
  "TAKE8_32 e w = ucast w"
  "TAKE8_64 e d = ucast d"
  by (cases e; simp add: TAKE8_8_def TAKE8_16_def TAKE8_32_def TAKE8_64_def
        mem8_def mem16_def mem32_def mem64_def)+

section \<open>Every integer operation is one append of the narrowest form\<close>

lemma real_uint8_narrowest:
  "msgpack_pack_real_uint8 ab e x d = ab x (narrowest_unsigned (uint d))"
  unfolding msgpack_pack_real_uint8_def narrowest_unsigned_def TAKE8_simps
    be_payload_uint byte0_uint
  using uint_bounded [of d]
  by simp

lemma real_uint16_narrowest:
  "msgpack_pack_real_uint16 ab e x d = ab x (narrowest_unsigned (uint d))"
  unfolding msgpack_pack_real_uint16_def narrowest_unsigned_def mem16_be16 TAKE8_simps
    be_payload_uint byte0_uint
  using uint_bounded [of d]
  by simp

lemma real_uint32_narrowest:
  "msgpack_pack_real_uint32 ab e x d = ab x (narrowest_unsigned (uint d))"
  unfolding msgpack_pack_real_uint32_def narrowest_unsigned_def mem16_be16 mem32_be32
    TAKE8_simps be_payload_uint byte0_uint
  using uint_bounded [of d]
  by (simp add: byte0_ucast byten_ucast)

lemma real_uint64_narrowest:
  "msgpack_pack_real_uint64 ab e x d = ab x (narrowest_unsigned (uint d))"
  unfolding msgpack_pack_real_uint64_def narrowest_unsigned_def mem16_be16 mem32_be32
    mem64_be64 TAKE8_simps be_payload_uint byte0_uint
  by (simp add: byte0_ucast byten_ucast)

lemma real_int8_narrowest:
  "msgpack_pack_real_int8 ab e x d = ab x (narrowest_signed (sint d))"
  unfolding msgpack_pack_real_int8_def narrowest_signed_def TAKE8_simps
  using sint_ge [of d] sint_lt [of d]
  by (simp add: be_payload_sint scast_byte)

lemma real_int16_narrowest:
  "msgpack_pack_real_int16 ab e x d = ab x (narrowest_signed (sint d))"
  unfolding msgpack_pack_real_int16_def narrowest_signed_def mem16_be16 TAKE8_simps
  using sint_ge [of d] sint_lt [of d]
  by (simp add: be_payload_sint scast_byte)

lemma real_int32_narrowest:
  "msgpack_pack_real_int32 ab e x d = ab x (narrowest_signed (sint d))"
  unfolding msgpack_pack_real_int32_def narrowest_signed_def mem16_be16 mem32_be32
    TAKE8_simps
  using sint_ge [of d] sint_lt [of d]
  by (simp add: be_payload_sint scast_byte byte0_ucast byten_ucast)

lemma real_int64_narrowest:
  "msgpack_pack_real_int64 ab e x d = ab x (narrowest_signed (sint d))"
  unfolding msgpack_pack_real_int64_def narrowest_signed_def mem16_be16 mem32_be32
    mem64_be64 TAKE8_simps
  by (simp add: be_payload_sint scast_byte byte0_ucast byten_ucast)

lemmas pack_unsigned_narrowest =
  real_uint8_narrowest [folded msgpack_pack_uint8_def]
  real_uint16_narrowest [folded msgpack_pack_uint16_def]
  real_uint32_narrowest [folded msgpack_pack_uint32_def]
  real_uint64_narrowest [folded msgpack_pack_uint64_def]

lemmas pack_signed_narrowest =
  real_int8_narrowest [folded msgpack_pack_int8_def]
  real_int16_narrowest [folded msgpack_pack_int16_def]
  real_int32_narrowest [folded msgpack_pack_int32_def]
  real_int64_narrowest [folded msgpack_pack_int64_def]

section \<open>Headers of arrays, maps and raws\<close>

lemma pack_array_header:
  "msgpack_pack_array ab e x n =
     ab x (if uint n < 16 then [0x90 OR ucast n]
           else if uint n < 65536 then 0xdc # be_payload 2 (uint n)
           else 0xdd # be_payload 4 (uint n))"
  unfolding msgpack_pack_array_def mem16_be16 mem32_be32 be_payload_uint
  by (simp add: byte0_ucast byten_ucast unsigned_or_eq)

lemma pack_map_header:
  "msgpack_pack_map ab e x n =
     ab x (if uint n < 16 then [0x80 OR ucast n]
           else if uint n < 65536 then 0xde # be_payload 2 (uint n)
           else 0xdf # be_payload 4 (uint n))"
  unfolding msgpack_pack_map_def mem16_be16 mem32_be32 TAKE8_simps be_payload_uint
  by (simp add: byte0_ucast byten_ucast unsigned_or_eq)

lemma uint_ucast_32: "uint (ucast (l :: 64 word) :: 32 word) = uint l mod 2 ^ 32"
  by (simp add: unsigned_ucast_eq take_bit_eq_mod)

lemma pack_raw_header:
  "msgpack_pack_raw ab e x l =
     ab x (if uint l < 32 then [0xa0 OR ucast l]
           else if uint l < 65536 then 0xda # be_payload 2 (uint l)
           else 0xdb # be_payload 4 (uint l mod 2 ^ 32))"
  unfolding msgpack_pack_raw_def mem16_be16 mem32_be32 TAKE8_simps
    uint_ucast_32 [symmetric] be_payload_uint
  by (simp add: byte0_ucast byten_ucast unsigned_or_eq)

section \<open>Leading bytes\<close>

lemma fixnum_pos: "0 \<le> k \<Longrightarrow> k < 128 \<Longrightarrow> (word_of_int k :: byte) \<le> 0x7f"
  by (simp add: word_le_def uint_word_of_int_eq take_bit_int_eq_self)

lemma fixnum_neg: "- 32 \<le> k \<Longrightarrow> k < 0 \<Longrightarrow> 0xe0 \<le> (word_of_int k :: byte)"
proof -
  assume a: "- 32 \<le> k" "k < 0"
  then have "k mod 256 = k + 256" by presburger
  with a show ?thesis
    by (simp add: word_le_def uint_word_of_int_eq take_bit_eq_mod)
qed

lemma tag_le_7f:
  "(b :: byte) \<le> 0x7f \<Longrightarrow> \<not> signed_tag b \<and> \<not> reserved_tag b \<and> listed_tag b"
  by (auto simp add: signed_tag_def reserved_tag_def listed_tag_def word_le_def)

lemma tag_ge_e0:
  "0xe0 \<le> (b :: byte) \<Longrightarrow> \<not> signed_tag b \<and> \<not> reserved_tag b \<and> \<not> listed_tag b"
  by (auto simp add: signed_tag_def reserved_tag_def listed_tag_def word_le_def)

lemma narrowest_signed_nonneg:
  "0 \<le> k \<Longrightarrow>
   (positive_fixnum (narrowest_signed k) \<or> unsigned_form (narrowest_signed k)) \<and>
   \<not> signed_tag (hd (narrowest_signed k))"
  using tag_le_7f [of "word_of_int k"] fixnum_pos [of k]
  by (simp add: narrowest_signed_def positive_fixnum_def unsigned_form_def
      be_payload_1 be_payload_2 be_payload_4 be_payload_8)
     (simp add: signed_tag_def)

lemma or_disjoint_int:
  "0 \<le> k \<Longrightarrow> k < 2 ^ m \<Longrightarrow> push_bit m t OR k = push_bit m t + (k :: int)"
proof -
  assume "0 \<le> k" "k < 2 ^ m"
  then have k: "take_bit m k = k" by (simp add: take_bit_int_eq_self)
  have "push_bit m t AND take_bit m k = 0"
    by (auto simp: bit_eq_iff bit_simps)
  then have "push_bit m t + take_bit m k = push_bit m t OR take_bit m k"
    by (rule disjunctive_add_eq_or)
  with k show ?thesis by simp
qed

lemma or_small_int: "0 \<le> k \<Longrightarrow> k < 32 \<Longrightarrow> (160::int) OR k = 160 + k"
  using or_disjoint_int [of k 5 5] by simp

lemma or_small_int16a: "0 \<le> k \<Longrightarrow> k < 16 \<Longrightarrow> (144::int) OR k = 144 + k"
  using or_disjoint_int [of k 4 9] by simp

lemma or_small_int16b: "0 \<le> k \<Longrightarrow> k < 16 \<Longrightarrow> (128::int) OR k = 128 + k"
  using or_disjoint_int [of k 4 8] by simp

lemma short_tag_uint:
  fixes n :: "'a::len word"
  assumes "uint n < 32" "8 \<le> LENGTH('a)"
  shows "uint (t OR ucast n :: byte) = uint t OR uint n"
proof -
  have "take_bit 8 (uint n) = uint n"
    using assms by (simp add: take_bit_int_eq_self)
  then show ?thesis using assms by (simp add: uint_or unsigned_ucast_eq)
qed

lemma raw_short_tag:
  "uint (l :: 64 word) < 32 \<Longrightarrow>
   0x80 \<le> (0xa0 OR ucast l :: byte) \<and> (0xa0 OR ucast l :: byte) \<le> 0xbf"
  using or_small_int [of "uint l"]
  by (simp add: word_le_def short_tag_uint)

lemma array_short_tag:
  "uint (n :: 32 word) < 16 \<Longrightarrow>
   0x80 \<le> (0x90 OR ucast n :: byte) \<and> (0x90 OR ucast n :: byte) \<le> 0xbf"
  using or_small_int16a [of "uint n"]
  by (simp add: word_le_def short_tag_uint)

lemma map_short_tag:
  "uint (n :: 32 word) < 16 \<Longrightarrow>
   0x80 \<le> (0x80 OR ucast n :: byte) \<and> (0x80 OR ucast n :: byte) \<le> 0xbf"
  using or_small_int16b [of "uint n"]
  by (simp add: word_le_def short_tag_uint)

lemma tag_80_bf:
  "0x80 \<le> (b :: byte) \<Longrightarrow> b \<le> 0xbf \<Longrightarrow> \<not> reserved_tag b \<and> wire_tag b"
  by (auto simp add: reserved_tag_def wire_tag_def listed_tag_def word_le_def)

lemma tag_fixnum: "- 32 \<le> k \<Longrightarrow> k < 128 \<Longrightarrow>
   \<not> reserved_tag (word_of_int k) \<and> wire_tag (word_of_int k)"
  using fixnum_pos [of k] fixnum_neg [of k] tag_le_7f [of "word_of_int k"]
    tag_ge_e0 [of "word_of_int k"]
  by (cases "0 \<le> k") (auto simp add: wire_tag_def)

lemma tag_consts:
  "\<not> reserved_tag 0xc0 \<and> wire_tag 0xc0" "\<not> reserved_tag 0xc2 \<and> wire_tag 0xc2"
  "\<not> reserved_tag 0xc3 \<and> wire_tag 0xc3" "\<not> reserved_tag 0xca \<and> wire_tag 0xca"
  "\<not> reserved_tag 0xcb \<and> wire_tag 0xcb" "\<not> reserved_tag 0xcc \<and> wire_tag 0xcc"
  "\<not> reserved_tag 0xcd \<and> wire_tag 0xcd" "\<not> reserved_tag 0xce \<and> wire_tag 0xce"
  "\<not> reserved_tag 0xcf \<and> wire_tag 0xcf" "\<not> reserved_tag 0xd0 \<and> wire_tag 0xd0"
  "\<not> reserved_tag 0xd1 \<and> wire_tag 0xd1" "\<not> reserved_tag 0xd2 \<and> wire_tag 0xd2"
  "\<not> reserved_tag 0xd3 \<and> wire_tag 0xd3" "\<not> reserved_tag 0xda \<and> wire_tag 0xda"
  "\<not> reserved_tag 0xdb \<and> wire_tag 0xdb" "\<not> reserved_tag 0xdc \<and> wire_tag 0xdc"
  "\<not> reserved_tag 0xdd \<and> wire_tag 0xdd" "\<not> reserved_tag 0xde \<and> wire_tag 0xde"
  "\<not> reserved_tag 0xdf \<and> wire_tag 0xdf"
  by (simp_all add: reserved_tag_def wire_tag_def listed_tag_def)

lemma narrowest_unsigned_tag: "0 \<le> k \<Longrightarrow> tagged (narrowest_unsigned k)"
  using tag_fixnum [of k]
  by (simp add: tagged_def narrowest_unsigned_def tag_consts)

lemma narrowest_signed_tag: "tagged (narrowest_signed k)"
  using tag_fixnum [of k]
  by (simp add: tagged_def narrowest_signed_def tag_consts)

lemma array_header_tag:
  "tagged (if uint (n :: 32 word) < 16 then [0x90 OR ucast n]
           else if uint n < 65536 then 0xdc # be_payload 2 (uint n)
           else 0xdd # be_payload 4 (uint n))"
proof (cases "uint n < 16")
  case True
  with array_short_tag [of n] tag_80_bf [of "0x90 OR ucast n"]
  show ?thesis by (simp add: tagged_def)
next
  case False
  then show ?thesis by (simp add: tagged_def tag_consts)
qed

lemma map_header_tag:
  "tagged (if uint (n :: 32 word) < 16 then [0x80 OR ucast n]
           else if uint n < 65536 then 0xde # be_payload 2 (uint n)
           else 0xdf # be_payload 4 (uint n))"
proof (cases "uint n < 16")
  case True
  with map_short_tag [of n] tag_80_bf [of "0x80 OR ucast n"]
  show ?thesis by (simp add: tagged_def)
next
  case False
  then show ?thesis by (simp add: tagged_def tag_consts)
qed

lemma raw_header_tag:
  "tagged (if uint (l :: 64 word) < 32 then [0xa0 OR ucast l]
           else if uint l < 65536 then 0xda # be_payload 2 (uint l)
           else 0xdb # be_payload 4 (uint l mod 2 ^ 32))"
proof (cases "uint l < 32")
  case True
  with raw_short_tag [of l] tag_80_bf [of "0xa0 OR ucast l"]
  show ?thesis by (simp add: tagged_def)
next
  case False
  then show ?thesis by (simp add: tagged_def tag_consts)
qed

lemmas fix_defs =
  msgpack_pack_fix_uint8_def msgpack_pack_fix_uint16_def msgpack_pack_fix_uint32_def
  msgpack_pack_fix_uint64_def msgpack_pack_fix_int8_def msgpack_pack_fix_int16_def
  msgpack_pack_fix_int32_def msgpack_pack_fix_int64_def msgpack_pack_float_def
  msgpack_pack_double_def msgpack_pack_nil_def msgpack_pack_true_def msgpack_pack_false_def



lemma emit_tagged:
  "tagged T \<Longrightarrow>
   \<exists>buf. (\<forall>(ab :: 'u \<Rightarrow> byte list \<Rightarrow> 'r) x. ab x T = ab x buf) \<and>
         buf \<noteq> [] \<and> \<not> reserved_tag (hd buf) \<and> wire_tag (hd buf)"
  by (auto simp: tagged_def)

lemma narrowest_signed_small_negative:
  "- (2 ^ 15) \<le> k \<Longrightarrow> k < - (2 ^ 5) \<Longrightarrow>
   narrowest_signed k =
     (if k < - (2 ^ 7) then 0xd1 # be_payload 2 k else 0xd0 # be_payload 1 k)"
  by (simp add: narrowest_signed_def)

lemma be64_reverses:
  "mem64 LittleEndian (msgpack_be64 LittleEndian v) = rev (mem64 LittleEndian v)"
  unfolding mem64_be64 by (simp add: mem64_def)

section \<open>Fixed forms, floats and constants\<close>

lemma fixed_forms:
  "msgpack_pack_fix_uint8 ab e x b = ab x (0xcc # be_payload 1 (uint b))"
  "msgpack_pack_fix_uint16 ab e x h = ab x (0xcd # be_payload 2 (uint h))"
  "msgpack_pack_fix_uint32 ab e x w = ab x (0xce # be_payload 4 (uint w))"
  "msgpack_pack_fix_uint64 ab e x v = ab x (0xcf # be_payload 8 (uint v))"
  "msgpack_pack_fix_int8 ab e x b = ab x (0xd0 # be_payload 1 (sint b))"
  "msgpack_pack_fix_int16 ab e x h = ab x (0xd1 # be_payload 2 (sint h))"
  "msgpack_pack_fix_int32 ab e x w = ab x (0xd2 # be_payload 4 (sint w))"
  "msgpack_pack_fix_int64 ab e x v = ab x (0xd3 # be_payload 8 (sint v))"
  "msgpack_pack_float ab e x w = ab x (0xca # be_payload 4 (uint w))"
  "msgpack_pack_double ab e x v = ab x (0xcb # be_payload 8 (uint v))"
  by (simp_all add: msgpack_pack_fix_uint8_def msgpack_pack_fix_uint16_def
      msgpack_pack_fix_uint32_def msgpack_pack_fix_uint64_def msgpack_pack_fix_int8_def
      msgpack_pack_fix_int16_def msgpack_pack_fix_int32_def msgpack_pack_fix_int64_def
      msgpack_pack_float_def msgpack_pack_double_def mem16_be16 mem32_be32 mem64_be64
      TAKE8_simps be_payload_uint be_payload_sint)

lemma constant_forms:
  "msgpack_pack_nil ab x = ab x [0xc0]"
  "msgpack_pack_true ab x = ab x [0xc3]"
  "msgpack_pack_false ab x = ab x [0xc2]"
  "msgpack_pack_raw_body ab x body = ab x body"
  by (simp_all add: msgpack_pack_nil_def msgpack_pack_true_def msgpack_pack_false_def
      msgpack_pack_raw_body_def)

section \<open>Properties of the encoder\<close>

text \<open>
  C1 (minimality of integer encodings).  For every unsigned 64-bit value the
  unsigned operation appends the first row of the unsigned table whose range holds
  the value: the value itself below \<open>2^7\<close>, 0xcc and one byte below \<open>2^8\<close>, 0xcd
  and two big-endian bytes below \<open>2^16\<close>, 0xce and four below \<open>2^32\<close>, 0xcf and
  eight otherwise.  For every signed 64-bit value the signed operation appends the
  narrowest of the fixnum, unsigned and signed forms whose range holds the value.
\<close>

theorem minimal_integer_encodings:
  "msgpack_pack_uint64 append_buffer e x v =
     append_buffer x (narrowest_unsigned (uint v)) \<and>
   msgpack_pack_int64 append_buffer e x w =
     append_buffer x (narrowest_signed (sint w))"
  by (simp add: pack_unsigned_narrowest pack_signed_narrowest)

text \<open>
  C3 (a value that is not negative never gets a signed tag).  At each of the four
  signed source widths, a value \<open>v \<ge> 0\<close> is handed to the sink, in one call, as a
  positive fixnum (one byte, at most 0x7f) or as an unsigned form (0xcc, 0xcd, 0xce
  or 0xcf with 1, 2, 4 or 8 bytes of payload); its leading byte is none of
  0xd0-0xd3.
\<close>

theorem nonnegative_signed_uses_unsigned_forms:
  "(0 \<le> sint v8 \<longrightarrow>
      (\<exists>buf. (\<forall>(append_buffer :: 'u \<Rightarrow> byte list \<Rightarrow> 'r) x.
                 msgpack_pack_int8 append_buffer e x v8 = append_buffer x buf) \<and>
             (positive_fixnum buf \<or> unsigned_form buf) \<and> \<not> signed_tag (hd buf))) \<and>
   (0 \<le> sint v16 \<longrightarrow>
      (\<exists>buf. (\<forall>(append_buffer :: 'u \<Rightarrow> byte list \<Rightarrow> 'r) x.
                 msgpack_pack_int16 append_buffer e x v16 = append_buffer x buf) \<and>
             (positive_fixnum buf \<or> unsigned_form buf) \<and> \<not> signed_tag (hd buf))) \<and>
   (0 \<le> sint v32 \<longrightarrow>
      (\<exists>buf. (\<forall>(append_buffer :: 'u \<Rightarrow> byte list \<Rightarrow> 'r) x.
                 msgpack_pack_int32 append_buffer e x v32 = append_buffer x buf) \<and>
             (positive_fixnum buf \<or> unsigned_form buf) \<and> \<not> signed_tag (hd buf))) \<and>
   (0 \<le> sint v64 \<longrightarrow>
      (\<exists>buf. (\<forall>(append_buffer :: 'u \<Rightarrow> byte list \<Rightarrow> 'r) x.
                 msgpack_pack_int64 append_buffer e x v64 = append_buffer x buf) \<and>
             (positive_fixnum buf \<or> unsigned_form buf) \<and> \<not> signed_tag (hd buf)))"
  unfolding pack_signed_narrowest
  using narrowest_signed_nonneg by blast

theorem nonnegative_signed_uses_unsigned_forms_witness:
  "0 \<le> sint (100 :: 8 word) \<and>
   (\<exists>buf. (\<forall>(append_buffer :: byte list \<Rightarrow> byte list \<Rightarrow> byte list) x.
              msgpack_pack_int8 append_buffer LittleEndian x 100 = append_buffer x buf) \<and>
          (positive_fixnum buf \<or> unsigned_form buf) \<and> \<not> signed_tag (hd buf)) \<and>
   0 \<le> sint (200 :: 16 word) \<and>
   (\<exists>buf. (\<forall>(append_buffer :: byte list \<Rightarrow> byte list \<Rightarrow> byte list) x.
              msgpack_pack_int16 append_buffer LittleEndian x 200 = append_buffer x buf) \<and>
          (positive_fixnum buf \<or> unsigned_form buf) \<and> \<not> signed_tag (hd buf)) \<and>
   0 \<le> sint (70000 :: 32 word) \<and>
   (\<exists>buf. (\<forall>(append_buffer :: byte list \<Rightarrow> byte list \<Rightarrow> byte list) x.
              msgpack_pack_int32 append_buffer LittleEndian x 70000 = append_buffer x buf) \<and>
          (positive_fixnum buf \<or> unsigned_form buf) \<and> \<not> signed_tag (hd buf)) \<and>
   0 \<le> sint (0x100000000 :: 64 word) \<and>
   (\<exists>buf. (\<forall>(append_buffer :: byte list \<Rightarrow> byte list \<Rightarrow> byte list) x.
              msgpack_pack_int64 append_buffer LittleEndian x 0x100000000 =
              append_buffer x buf) \<and>
          (positive_fixnum buf \<or> unsigned_form buf) \<and> \<not> signed_tag (hd buf))"
proof -
  have h: "0 \<le> sint (100 :: 8 word)" "0 \<le> sint (200 :: 16 word)"
    "0 \<le> sint (70000 :: 32 word)" "0 \<le> sint (0x100000000 :: 64 word)"
    by simp_all
  from nonnegative_signed_uses_unsigned_forms
         [where ?'u = "byte list" and ?'r = "byte list" and ?v8.0 = 100 and ?v16.0 = 200
            and ?v32.0 = 70000 and ?v64.0 = "0x100000000" and e = LittleEndian]
       h
  show ?thesis by blast
qed

text \<open>
  C5 (concrete encodings).  Unsigned 300 is appended as 0xcd 0x01 0x2c, signed -1 as
  0xff, signed -100 as 0xd0 0x9c, nil as 0xc0; the header of an array of 3 elements
  is 0x93 and the header of a raw of 40 bytes is 0xda 0x00 0x28.  This holds at every
  source width that has the value and on either host.
\<close>

theorem concrete_encodings:
  "msgpack_pack_uint16 append_buffer e x 300 = append_buffer x [0xcd, 0x01, 0x2c] \<and>
   msgpack_pack_uint32 append_buffer e x 300 = append_buffer x [0xcd, 0x01, 0x2c] \<and>
   msgpack_pack_uint64 append_buffer e x 300 = append_buffer x [0xcd, 0x01, 0x2c] \<and>
   msgpack_pack_int8 append_buffer e x (- 1) = append_buffer x [0xff] \<and>
   msgpack_pack_int16 append_buffer e x (- 1) = append_buffer x [0xff] \<and>
   msgpack_pack_int32 append_buffer e x (- 1) = append_buffer x [0xff] \<and>
   msgpack_pack_int64 append_buffer e x (- 1) = append_buffer x [0xff] \<and>
   msgpack_pack_int8 append_buffer e x (- 100) = append_buffer x [0xd0, 0x9c] \<and>
   msgpack_pack_int16 append_buffer e x (- 100) = append_buffer x [0xd0, 0x9c] \<and>
   msgpack_pack_int32 append_buffer e x (- 100) = append_buffer x [0xd0, 0x9c] \<and>
   msgpack_pack_int64 append_buffer e x (- 100) = append_buffer x [0xd0, 0x9c] \<and>
   msgpack_pack_nil append_buffer x = append_buffer x [0xc0] \<and>
   msgpack_pack_array append_buffer e x 3 = append_buffer x [0x93] \<and>
   msgpack_pack_raw append_buffer e x 40 = append_buffer x [0xda, 0x00, 0x28]"
proof -
  have u: "narrowest_unsigned 300 = [0xcd, 0x01, 0x2c]"
    by (simp add: narrowest_unsigned_def be_payload_2)
  have s1: "narrowest_signed (- 1) = [0xff]"
    by (simp add: narrowest_signed_def)
  have s100: "narrowest_signed (- 100) = [0xd0, 0x9c]"
    by (simp add: narrowest_signed_def be_payload_1)
  have r: "mem16 e (msgpack_be16 e 40) = [0x00, 0x28]"
    by (simp add: mem16_be16)
  show ?thesis
    by (simp add: pack_unsigned_narrowest pack_signed_narrowest u s1 s100
        msgpack_pack_nil_def msgpack_pack_array_def msgpack_pack_raw_def r)
qed

text \<open>
  C7 (width refinement).  A value below \<open>2^16\<close> is encoded by the 16-bit unsigned
  operation exactly as by the 64-bit one: the same single call with the same bytes.
\<close>

theorem width_refinement:
  "uint v < 2 ^ 16 \<Longrightarrow>
   msgpack_pack_uint16 append_buffer e x (ucast v) = msgpack_pack_uint64 append_buffer e x v"
proof -
  assume "uint v < 2 ^ 16"
  then have "uint (ucast v :: 16 word) = uint v"
    by (simp add: unsigned_ucast_eq take_bit_int_eq_self)
  then show ?thesis
    by (simp only: pack_unsigned_narrowest)
qed

theorem width_refinement_witness:
  "uint (300 :: 64 word) < 2 ^ 16 \<and>
   msgpack_pack_uint16 (\<lambda>x buf. x @ buf) LittleEndian [] (ucast (300 :: 64 word)) =
   msgpack_pack_uint64 (\<lambda>x buf. x @ buf) LittleEndian [] 300"
  using width_refinement [of 300 "\<lambda>x buf. x @ buf" LittleEndian "[]"]
  by simp

text \<open>
  C8 (container headers).  The array header for a count \<open>n\<close> is the byte
  \<open>0x90 | n\<close> when \<open>n < 16\<close>, 0xdc and \<open>n\<close> in two big-endian bytes when
  \<open>n < 65536\<close>, 0xdd and \<open>n\<close> in four big-endian bytes otherwise; the map header
  has the same thresholds with \<open>0x80 | n\<close>, 0xde and 0xdf.  The bytes are a function
  of \<open>n\<close> alone.
\<close>

theorem container_headers:
  "msgpack_pack_array append_buffer e x n =
     append_buffer x
       (if uint n < 16 then [0x90 OR ucast n]
        else if uint n < 65536 then 0xdc # be_payload 2 (uint n)
        else 0xdd # be_payload 4 (uint n)) \<and>
   msgpack_pack_map append_buffer e x n =
     append_buffer x
       (if uint n < 16 then [0x80 OR ucast n]
        else if uint n < 65536 then 0xde # be_payload 2 (uint n)
        else 0xdf # be_payload 4 (uint n))"
  by (simp only: pack_array_header pack_map_header)

text \<open>
  C9 (append atomicity).  Every operation is one call of the append callback, on
  the sink it was given, and the buffer of that call is the whole encoding: the
  tag together with all of its payload (1, 2, 4 or 8 bytes after the tag of a wide
  form, none after a fixnum, a constant or a short header), or the whole body for
  the raw body.  The buffer is a function of the value alone, so nothing of the
  encoding is left for a second call, whatever the callback and the sink are.
  What the sink does in that call, failure included, is therefore all that happens
  to it.
\<close>

theorem single_append:
  "msgpack_pack_uint8 append_buffer e x b =
     append_buffer x (narrowest_unsigned (uint b)) \<and>
   msgpack_pack_uint16 append_buffer e x h =
     append_buffer x (narrowest_unsigned (uint h)) \<and>
   msgpack_pack_uint32 append_buffer e x w =
     append_buffer x (narrowest_unsigned (uint w)) \<and>
   msgpack_pack_uint64 append_buffer e x v =
     append_buffer x (narrowest_unsigned (uint v)) \<and>
   msgpack_pack_int8 append_buffer e x b =
     append_buffer x (narrowest_signed (sint b)) \<and>
   msgpack_pack_int16 append_buffer e x h =
     append_buffer x (narrowest_signed (sint h)) \<and>
   msgpack_pack_int32 append_buffer e x w =
     append_buffer x (narrowest_signed (sint w)) \<and>
   msgpack_pack_int64 append_buffer e x v =
     append_buffer x (narrowest_signed (sint v)) \<and>
   msgpack_pack_fix_uint8 append_buffer e x b =
     append_buffer x (0xcc # be_payload 1 (uint b)) \<and>
   msgpack_pack_fix_uint16 append_buffer e x h =
     append_buffer x (0xcd # be_payload 2 (uint h)) \<and>
   msgpack_pack_fix_uint32 append_buffer e x w =
     append_buffer x (0xce # be_payload 4 (uint w)) \<and>
   msgpack_pack_fix_uint64 append_buffer e x v =
     append_buffer x (0xcf # be_payload 8 (uint v)) \<and>
   msgpack_pack_fix_int8 append_buffer e x b =
     append_buffer x (0xd0 # be_payload 1 (sint b)) \<and>
   msgpack_pack_fix_int16 append_buffer e x h =
     append_buffer x (0xd1 # be_payload 2 (sint h)) \<and>
   msgpack_pack_fix_int32 append_buffer e x w =
     append_buffer x (0xd2 # be_payload 4 (sint w)) \<and>
   msgpack_pack_fix_int64 append_buffer e x v =
     append_buffer x (0xd3 # be_payload 8 (sint v)) \<and>
   msgpack_pack_float append_buffer e x w =
     append_buffer x (0xca # be_payload 4 (uint w)) \<and>
   msgpack_pack_double append_buffer e x v =
     append_buffer x (0xcb # be_payload 8 (uint v)) \<and>
   msgpack_pack_nil append_buffer x = append_buffer x [0xc0] \<and>
   msgpack_pack_true append_buffer x = append_buffer x [0xc3] \<and>
   msgpack_pack_false append_buffer x = append_buffer x [0xc2] \<and>
   msgpack_pack_array append_buffer e x n =
     append_buffer x
       (if uint n < 16 then [0x90 OR ucast n]
        else if uint n < 65536 then 0xdc # be_payload 2 (uint n)
        else 0xdd # be_payload 4 (uint n)) \<and>
   msgpack_pack_map append_buffer e x n =
     append_buffer x
       (if uint n < 16 then [0x80 OR ucast n]
        else if uint n < 65536 then 0xde # be_payload 2 (uint n)
        else 0xdf # be_payload 4 (uint n)) \<and>
   msgpack_pack_raw append_buffer e x l =
     append_buffer x
       (if uint l < 32 then [0xa0 OR ucast l]
        else if uint l < 65536 then 0xda # be_payload 2 (uint l)
        else 0xdb # be_payload 4 (uint l mod 2 ^ 32)) \<and>
   msgpack_pack_raw_body append_buffer x body = append_buffer x body"
  by (simp only: pack_unsigned_narrowest pack_signed_narrowest fixed_forms constant_forms
      pack_array_header pack_map_header pack_raw_header simp_thms)

text \<open>
  C10 (reserved tags are never emitted).  The leading byte of every
  encoding of an integer (at every width, narrowest or fixed form), a float, a
  double, nil, a Boolean, and of every array, map and raw header is none of 0xc1,
  0xc4-0xc9 and 0xd4-0xd9; it lies in 0x00-0xbf, 0xc0, 0xc2, 0xc3, 0xca-0xcf,
  0xd0-0xd3, 0xda-0xdf or, for a negative fixnum, 0xe0-0xff.
\<close>

theorem leading_bytes:
  "(\<exists>buf. (\<forall>(append_buffer :: 'u \<Rightarrow> byte list \<Rightarrow> 'r) x.
              msgpack_pack_uint8 append_buffer e x u8 = append_buffer x buf) \<and>
          buf \<noteq> [] \<and> \<not> reserved_tag (hd buf) \<and> wire_tag (hd buf)) \<and>
   (\<exists>buf. (\<forall>(append_buffer :: 'u \<Rightarrow> byte list \<Rightarrow> 'r) x.
              msgpack_pack_uint16 append_buffer e x u16 = append_buffer x buf) \<and>
          buf \<noteq> [] \<and> \<not> reserved_tag (hd buf) \<and> wire_tag (hd buf)) \<and>
   (\<exists>buf. (\<forall>(append_buffer :: 'u \<Rightarrow> byte list \<Rightarrow> 'r) x.
              msgpack_pack_uint32 append_buffer e x u32 = append_buffer x buf) \<and>
          buf \<noteq> [] \<and> \<not> reserved_tag (hd buf) \<and> wire_tag (hd buf)) \<and>
   (\<exists>buf. (\<forall>(append_buffer :: 'u \<Rightarrow> byte list \<Rightarrow> 'r) x.
              msgpack_pack_uint64 append_buffer e x u64 = append_buffer x buf) \<and>
          buf \<noteq> [] \<and> \<not> reserved_tag (hd buf) \<and> wire_tag (hd buf)) \<and>
   (\<exists>buf. (\<forall>(append_buffer :: 'u \<Rightarrow> byte list \<Rightarrow> 'r) x.
              msgpack_pack_int8 append_buffer e x i8 = append_buffer x buf) \<and>
          buf \<noteq> [] \<and> \<not> reserved_tag (hd buf) \<and> wire_tag (hd buf)) \<and>
   (\<exists>buf. (\<forall>(append_buffer :: 'u \<Rightarrow> byte list \<Rightarrow> 'r) x.
              msgpack_pack_int16 append_buffer e x i16 = append_buffer x buf) \<and>
          buf \<noteq> [] \<and> \<not> reserved_tag (hd buf) \<and> wire_tag (hd buf)) \<and>
   (\<exists>buf. (\<forall>(append_buffer :: 'u \<Rightarrow> byte list \<Rightarrow> 'r) x.
              msgpack_pack_int32 append_buffer e x i32 = append_buffer x buf) \<and>
          buf \<noteq> [] \<and> \<not> reserved_tag (hd buf) \<and> wire_tag (hd buf)) \<and>
   (\<exists>buf. (\<forall>(append_buffer :: 'u \<Rightarrow> byte list \<Rightarrow> 'r) x.
              msgpack_pack_int64 append_buffer e x i64 = append_buffer x buf) \<and>
          buf \<noteq> [] \<and> \<not> reserved_tag (hd buf) \<and> wire_tag (hd buf)) \<and>
   (\<exists>buf. (\<forall>(append_buffer :: 'u \<Rightarrow> byte list \<Rightarrow> 'r) x.
              msgpack_pack_fix_uint8 append_buffer e x u8 = append_buffer x buf) \<and>
          buf \<noteq> [] \<and> \<not> reserved_tag (hd buf) \<and> wire_tag (hd buf)) \<and>
   (\<exists>buf. (\<forall>(append_buffer :: 'u \<Rightarrow> byte list \<Rightarrow> 'r) x.
              msgpack_pack_fix_uint16 append_buffer e x u16 = append_buffer x buf) \<and>
          buf \<noteq> [] \<and> \<not> reserved_tag (hd buf) \<and> wire_tag (hd buf)) \<and>
   (\<exists>buf. (\<forall>(append_buffer :: 'u \<Rightarrow> byte list \<Rightarrow> 'r) x.
              msgpack_pack_fix_uint32 append_buffer e x u32 = append_buffer x buf) \<and>
          buf \<noteq> [] \<and> \<not> reserved_tag (hd buf) \<and> wire_tag (hd buf)) \<and>
   (\<exists>buf. (\<forall>(append_buffer :: 'u \<Rightarrow> byte list \<Rightarrow> 'r) x.
              msgpack_pack_fix_uint64 append_buffer e x u64 = append_buffer x buf) \<and>
          buf \<noteq> [] \<and> \<not> reserved_tag (hd buf) \<and> wire_tag (hd buf)) \<and>
   (\<exists>buf. (\<forall>(append_buffer :: 'u \<Rightarrow> byte list \<Rightarrow> 'r) x.
              msgpack_pack_fix_int8 append_buffer e x i8 = append_buffer x buf) \<and>
          buf \<noteq> [] \<and> \<not> reserved_tag (hd buf) \<and> wire_tag (hd buf)) \<and>
   (\<exists>buf. (\<forall>(append_buffer :: 'u \<Rightarrow> byte list \<Rightarrow> 'r) x.
              msgpack_pack_fix_int16 append_buffer e x i16 = append_buffer x buf) \<and>
          buf \<noteq> [] \<and> \<not> reserved_tag (hd buf) \<and> wire_tag (hd buf)) \<and>
   (\<exists>buf. (\<forall>(append_buffer :: 'u \<Rightarrow> byte list \<Rightarrow> 'r) x.
              msgpack_pack_fix_int32 append_buffer e x i32 = append_buffer x buf) \<and>
          buf \<noteq> [] \<and> \<not> reserved_tag (hd buf) \<and> wire_tag (hd buf)) \<and>
   (\<exists>buf. (\<forall>(append_buffer :: 'u \<Rightarrow> byte list \<Rightarrow> 'r) x.
              msgpack_pack_fix_int64 append_buffer e x i64 = append_buffer x buf) \<and>
          buf \<noteq> [] \<and> \<not> reserved_tag (hd buf) \<and> wire_tag (hd buf)) \<and>
   (\<exists>buf. (\<forall>(append_buffer :: 'u \<Rightarrow> byte list \<Rightarrow> 'r) x.
              msgpack_pack_float append_buffer e x f = append_buffer x buf) \<and>
          buf \<noteq> [] \<and> \<not> reserved_tag (hd buf) \<and> wire_tag (hd buf)) \<and>
   (\<exists>buf. (\<forall>(append_buffer :: 'u \<Rightarrow> byte list \<Rightarrow> 'r) x.
              msgpack_pack_double append_buffer e x g = append_buffer x buf) \<and>
          buf \<noteq> [] \<and> \<not> reserved_tag (hd buf) \<and> wire_tag (hd buf)) \<and>
   (\<exists>buf. (\<forall>(append_buffer :: 'u \<Rightarrow> byte list \<Rightarrow> 'r) x.
              msgpack_pack_nil append_buffer x = append_buffer x buf) \<and>
          buf \<noteq> [] \<and> \<not> reserved_tag (hd buf) \<and> wire_tag (hd buf)) \<and>
   (\<exists>buf. (\<forall>(append_buffer :: 'u \<Rightarrow> byte list \<Rightarrow> 'r) x.
              msgpack_pack_true append_buffer x = append_buffer x buf) \<and>
          buf \<noteq> [] \<and> \<not> reserved_tag (hd buf) \<and> wire_tag (hd buf)) \<and>
   (\<exists>buf. (\<forall>(append_buffer :: 'u \<Rightarrow> byte list \<Rightarrow> 'r) x.
              msgpack_pack_false append_buffer x = append_buffer x buf) \<and>
          buf \<noteq> [] \<and> \<not> reserved_tag (hd buf) \<and> wire_tag (hd buf)) \<and>
   (\<exists>buf. (\<forall>(append_buffer :: 'u \<Rightarrow> byte list \<Rightarrow> 'r) x.
              msgpack_pack_array append_buffer e x n = append_buffer x buf) \<and>
          buf \<noteq> [] \<and> \<not> reserved_tag (hd buf) \<and> wire_tag (hd buf)) \<and>
   (\<exists>buf. (\<forall>(append_buffer :: 'u \<Rightarrow> byte list \<Rightarrow> 'r) x.
              msgpack_pack_map append_buffer e x m = append_buffer x buf) \<and>
          buf \<noteq> [] \<and> \<not> reserved_tag (hd buf) \<and> wire_tag (hd buf)) \<and>
   (\<exists>buf. (\<forall>(append_buffer :: 'u \<Rightarrow> byte list \<Rightarrow> 'r) x.
              msgpack_pack_raw append_buffer e x l = append_buffer x buf) \<and>
          buf \<noteq> [] \<and> \<not> reserved_tag (hd buf) \<and> wire_tag (hd buf))"
  unfolding pack_unsigned_narrowest pack_signed_narrowest pack_array_header pack_map_header
    pack_raw_header fix_defs
  by (intro conjI emit_tagged narrowest_unsigned_tag narrowest_signed_tag array_header_tag
      map_header_tag raw_header_tag)
     (simp_all add: tagged_def tag_consts)

text \<open>
  Without the negative fixnums the ranges do not hold every leading byte: signed
  -1 is encoded as the byte 0xff, which is in none of 0x00-0xbf, 0xc0, 0xc2, 0xc3,
  0xca-0xcf, 0xd0-0xd3 and 0xda-0xdf.
\<close>

theorem leading_bytes_counterexample:
  "msgpack_pack_int64 (\<lambda>x buf. x @ buf) LittleEndian [] (- 1) = [0xff] \<and>
   \<not> listed_tag 0xff"
proof -
  have "narrowest_signed (- 1) = [0xff]"
    by (simp add: narrowest_signed_def)
  then show ?thesis
    by (simp add: pack_signed_narrowest listed_tag_def)
qed

text \<open>
  C2 (the signed forms of 8 and 16 bits).  A signed value \<open>v\<close> with
  \<open>-2^7 \<le> v < -2^5\<close> is appended as 0xd0 and one byte of payload; a value with
  \<open>-2^15 \<le> v < -2^7\<close> is appended as 0xd1 and two big-endian bytes of payload.
  This holds at every signed source width.
\<close>

theorem signed_8bit_and_16bit_forms:
  "(- (2 ^ 15) \<le> sint v8 \<and> sint v8 < - (2 ^ 5) \<longrightarrow>
      msgpack_pack_int8 append_buffer e x v8 =
        append_buffer x (if sint v8 < - (2 ^ 7) then 0xd1 # be_payload 2 (sint v8)
                         else 0xd0 # be_payload 1 (sint v8))) \<and>
   (- (2 ^ 15) \<le> sint v16 \<and> sint v16 < - (2 ^ 5) \<longrightarrow>
      msgpack_pack_int16 append_buffer e x v16 =
        append_buffer x (if sint v16 < - (2 ^ 7) then 0xd1 # be_payload 2 (sint v16)
                         else 0xd0 # be_payload 1 (sint v16))) \<and>
   (- (2 ^ 15) \<le> sint v32 \<and> sint v32 < - (2 ^ 5) \<longrightarrow>
      msgpack_pack_int32 append_buffer e x v32 =
        append_buffer x (if sint v32 < - (2 ^ 7) then 0xd1 # be_payload 2 (sint v32)
                         else 0xd0 # be_payload 1 (sint v32))) \<and>
   (- (2 ^ 15) \<le> sint v64 \<and> sint v64 < - (2 ^ 5) \<longrightarrow>
      msgpack_pack_int64 append_buffer e x v64 =
        append_buffer x (if sint v64 < - (2 ^ 7) then 0xd1 # be_payload 2 (sint v64)
                         else 0xd0 # be_payload 1 (sint v64)))"
  unfolding pack_signed_narrowest
  using narrowest_signed_small_negative by simp

theorem signed_8bit_and_16bit_forms_witness:
  "- (2 ^ 15) \<le> sint (- 33 :: 8 word) \<and> sint (- 33 :: 8 word) < - (2 ^ 5) \<and>
   msgpack_pack_int8 (\<lambda>x buf. x @ buf) LittleEndian [] (- 33) = [0xd0, 0xdf] \<and>
   - (2 ^ 15) \<le> sint (- 100 :: 16 word) \<and> sint (- 100 :: 16 word) < - (2 ^ 5) \<and>
   msgpack_pack_int16 (\<lambda>x buf. x @ buf) LittleEndian [] (- 100) = [0xd0, 0x9c] \<and>
   - (2 ^ 15) \<le> sint (- 129 :: 32 word) \<and> sint (- 129 :: 32 word) < - (2 ^ 5) \<and>
   msgpack_pack_int32 (\<lambda>x buf. x @ buf) LittleEndian [] (- 129) = [0xd1, 0xff, 0x7f] \<and>
   - (2 ^ 15) \<le> sint (- 128 :: 64 word) \<and> sint (- 128 :: 64 word) < - (2 ^ 5) \<and>
   msgpack_pack_int64 (\<lambda>x buf. x @ buf) LittleEndian [] (- 128) = [0xd0, 0x80]"
  using signed_8bit_and_16bit_forms
    [of "- 33" "\<lambda>x buf. x @ buf" LittleEndian "[]" "- 100" "- 129" "- 128"]
  by (simp add: be_payload_1 be_payload_2)

text \<open>
  A value in \<open>-2^15 \<le> v < -2^7\<close> does not get the 8-bit form: -1000 is encoded as
  0xd1 0xfc 0x18, at 16 and at 64 bits of source width.
\<close>

theorem signed_8bit_range_counterexample:
  "- (2 ^ 15) \<le> sint (- 1000 :: 16 word) \<and> sint (- 1000 :: 16 word) < - (2 ^ 7) \<and>
   msgpack_pack_int16 (\<lambda>x buf. x @ buf) LittleEndian [] (- 1000) = [0xd1, 0xfc, 0x18] \<and>
   - (2 ^ 15) \<le> sint (- 1000 :: 64 word) \<and> sint (- 1000 :: 64 word) < - (2 ^ 7) \<and>
   msgpack_pack_int64 (\<lambda>x buf. x @ buf) BigEndian [] (- 1000) = [0xd1, 0xfc, 0x18]"
proof -
  have "narrowest_signed (- 1000) = [0xd1, 0xfc, 0x18]"
    by (simp add: narrowest_signed_def be_payload_2)
  then show ?thesis
    by (simp add: pack_signed_narrowest)
qed

text \<open>
  C4 (a length beyond the widest length field).  The raw header operation has no
  rejecting path: for every 64-bit length \<open>l\<close> it makes its one append.  The header
  holds \<open>l\<close> itself when \<open>l < 2^32\<close>; for a larger \<open>l\<close> it is 0xdb followed by
  the low 32 bits of \<open>l\<close>.
\<close>

theorem raw_header_of_any_length:
  "msgpack_pack_raw append_buffer e x l =
     append_buffer x
       (if uint l < 32 then [0xa0 OR ucast l]
        else if uint l < 2 ^ 16 then 0xda # be_payload 2 (uint l)
        else if uint l < 2 ^ 32 then 0xdb # be_payload 4 (uint l)
        else 0xdb # be_payload 4 (uint l mod 2 ^ 32))"
  by (simp add: pack_raw_header)

text \<open>
  The length \<open>2^32 + 5\<close> is not rejected: the header 0xdb 0x00 0x00 0x00 0x05, that of
  a raw of five bytes, is appended.
\<close>

theorem raw_length_counterexample:
  "2 ^ 32 \<le> uint (0x100000005 :: 64 word) \<and>
   msgpack_pack_raw (\<lambda>x buf. x @ buf) LittleEndian [] 0x100000005 = [0xdb, 0, 0, 0, 5] \<and>
   msgpack_pack_raw (\<lambda>x buf. x @ buf) BigEndian [] 0x100000005 = [0xdb, 0, 0, 0, 5]"
  by (simp add: msgpack_pack_raw_def mem32_be32)

text \<open>
  C6 (byte order).  Every payload of more than one byte is appended in big-endian
  order on either host: each operation that can emit one (the integers of 16, 32
  and 64 bits in narrowest and in fixed form, float, double, and the array, map and
  raw headers) appends its tag followed by the big-endian payload of the value,
  and the bytes do not depend on the host.  The 16-bit unsigned value 0x0102 is
  appended as 0xcd 0x01 0x02.  The 64-bit conversion is the identity on a
  big-endian host and reverses the eight bytes of its operand on a little-endian
  host, byte \<open>i\<close> of the result being byte \<open>7 - i\<close> of the operand.  On either
  host the converted value, stored to memory, is the operand's big-endian payload,
  at 16, 32 and 64 bits.
\<close>

theorem big_endian_byte_order:
  "msgpack_pack_uint16 append_buffer e x 0x0102 = append_buffer x [0xcd, 0x01, 0x02] \<and>
   msgpack_be64 BigEndian v = v \<and>
   mem64 LittleEndian (msgpack_be64 LittleEndian v) = rev (mem64 LittleEndian v) \<and>
   (\<forall>i<8. mem64 LittleEndian (msgpack_be64 LittleEndian v) ! i =
           mem64 LittleEndian v ! (7 - i)) \<and>
   mem16 e (msgpack_be16 e h) = be_payload 2 (uint h) \<and>
   mem32 e (msgpack_be32 e w) = be_payload 4 (uint w) \<and>
   mem64 e (msgpack_be64 e v) = be_payload 8 (uint v) \<and>
   msgpack_pack_uint16 append_buffer e x h =
     append_buffer x (narrowest_unsigned (uint h)) \<and>
   msgpack_pack_uint32 append_buffer e x w =
     append_buffer x (narrowest_unsigned (uint w)) \<and>
   msgpack_pack_uint64 append_buffer e x v =
     append_buffer x (narrowest_unsigned (uint v)) \<and>
   msgpack_pack_int16 append_buffer e x h =
     append_buffer x (narrowest_signed (sint h)) \<and>
   msgpack_pack_int32 append_buffer e x w =
     append_buffer x (narrowest_signed (sint w)) \<and>
   msgpack_pack_int64 append_buffer e x v =
     append_buffer x (narrowest_signed (sint v)) \<and>
   msgpack_pack_fix_uint16 append_buffer e x h =
     append_buffer x (0xcd # be_payload 2 (uint h)) \<and>
   msgpack_pack_fix_uint32 append_buffer e x w =
     append_buffer x (0xce # be_payload 4 (uint w)) \<and>
   msgpack_pack_fix_uint64 append_buffer e x v =
     append_buffer x (0xcf # be_payload 8 (uint v)) \<and>
   msgpack_pack_fix_int16 append_buffer e x h =
     append_buffer x (0xd1 # be_payload 2 (sint h)) \<and>
   msgpack_pack_fix_int32 append_buffer e x w =
     append_buffer x (0xd2 # be_payload 4 (sint w)) \<and>
   msgpack_pack_fix_int64 append_buffer e x v =
     append_buffer x (0xd3 # be_payload 8 (sint v)) \<and>
   msgpack_pack_float append_buffer e x w =
     append_buffer x (0xca # be_payload 4 (uint w)) \<and>
   msgpack_pack_double append_buffer e x v =
     append_buffer x (0xcb # be_payload 8 (uint v)) \<and>
   msgpack_pack_array append_buffer e x n =
     append_buffer x
       (if uint n < 16 then [0x90 OR ucast n]
        else if uint n < 65536 then 0xdc # be_payload 2 (uint n)
        else 0xdd # be_payload 4 (uint n)) \<and>
   msgpack_pack_map append_buffer e x n =
     append_buffer x
       (if uint n < 16 then [0x80 OR ucast n]
        else if uint n < 65536 then 0xde # be_payload 2 (uint n)
        else 0xdf # be_payload 4 (uint n)) \<and>
   msgpack_pack_raw append_buffer e x l =
     append_buffer x
       (if uint l < 32 then [0xa0 OR ucast l]
        else if uint l < 65536 then 0xda # be_payload 2 (uint l)
        else 0xdb # be_payload 4 (uint l mod 2 ^ 32))"
proof -
  have a: "narrowest_unsigned 0x0102 = [0xcd, 0x01, 0x02]"
    by (simp add: narrowest_unsigned_def be_payload_2)
  have len: "length (mem64 LittleEndian v) = 8"
    by (simp add: mem64_def)
  have b: "\<forall>i<8. mem64 LittleEndian (msgpack_be64 LittleEndian v) ! i =
             mem64 LittleEndian v ! (7 - i)"
  proof (intro allI impI)
    fix i :: nat
    assume "i < 8"
    then have "rev (mem64 LittleEndian v) ! i = mem64 LittleEndian v ! (8 - Suc i)"
      using rev_nth [of i "mem64 LittleEndian v"] by (simp only: len)
    then show "mem64 LittleEndian (msgpack_be64 LittleEndian v) ! i =
               mem64 LittleEndian v ! (7 - i)"
      by (simp add: be64_reverses)
  qed
  have c: "msgpack_pack_uint16 append_buffer e x 0x0102 = append_buffer x [0xcd, 0x01, 0x02]"
    by (simp add: pack_unsigned_narrowest a)
  have d: "msgpack_be64 BigEndian v = v"
    by (simp add: msgpack_be64_def)
  have p: "mem16 e (msgpack_be16 e h) = be_payload 2 (uint h)"
    "mem32 e (msgpack_be32 e w) = be_payload 4 (uint w)"
    "mem64 e (msgpack_be64 e v) = be_payload 8 (uint v)"
    by (simp_all only: mem16_be16 mem32_be32 mem64_be64 be_payload_uint)
  from c d be64_reverses [of v] b p show ?thesis
    by (intro conjI)
       (simp_all only: pack_unsigned_narrowest pack_signed_narrowest fixed_forms
          pack_array_header pack_map_header pack_raw_header)
qed

theorem big_endian_byte_order_witness:
  "(3 :: nat) < 8 \<and>
   mem64 LittleEndian (msgpack_be64 LittleEndian 0x0102030405060708) ! 3 =
   mem64 LittleEndian 0x0102030405060708 ! (7 - 3) \<and>
   mem64 LittleEndian (msgpack_be64 LittleEndian 0x0102030405060708) =
   [1, 2, 3, 4, 5, 6, 7, 8]"
  using big_endian_byte_order
    [where append_buffer = "\<lambda>x buf. x @ buf" and e = LittleEndian and x = "[]"
       and v = "0x0102030405060708" and h = 0 and w = 0 and n = 0 and l = 0]
  by (simp add: mem64_def)

end
